theory Spec2Isabelle
  imports Main "HOL-Library.AList"
begin

section \<open>The browser as seen by the application\<close>

text \<open>
  The application is a set of React components and one module of authentication helpers.
  Everything they do to the outside is recorded in a log of effects, newest first:
  network requests, object URLs minted and revoked, alerts, navigation, window events and
  the click on the synthetic download anchor. An object URL is identified by the number
  of the \<open>URL.createObjectURL\<close> call that minted it; the browser never mints one twice.
\<close>

type_synonym url = nat

datatype effect =
    Fetch string string
  | CreateObjectURL url
  | RevokeObjectURL url
  | Alert string
  | RouterPush string
  | DispatchEvent string
  | AnchorClick url string

record browser =
  storage :: "string \<rightharpoonup> string"
  nextUrl :: nat
  effects :: "effect list"

text \<open>The object URLs that are live after a log: minted and not revoked since.\<close>

fun liveUrls :: "effect list \<Rightarrow> url set" where
  "liveUrls [] = {}"
| "liveUrls (CreateObjectURL u # es) = insert u (liveUrls es)"
| "liveUrls (RevokeObjectURL u # es) = liveUrls es - {u}"
| "liveUrls (e # es) = liveUrls es"

definition emit :: "effect \<Rightarrow> 'a browser_scheme \<Rightarrow> 'a browser_scheme" where
  "emit e w = w\<lparr>effects := e # effects w\<rparr>"

text \<open>
  A \<open>fetch\<close> either rejects (a network failure is a TypeError, an abort an AbortError) or
  resolves to a response with a status, a status text and a body. Reading the body can
  fail, and a body that was read need not be JSON. \<open>response.ok\<close> is a status in 200..299.
\<close>

datatype 'a body = Unreadable string string | NotJson string | Json 'a

datatype 'a reply = Rejects string string | Resolves nat string "'a body"

definition ok :: "nat \<Rightarrow> bool" where
  "ok status = (200 \<le> status \<and> status \<le> 299)"

text \<open>An async function either has returned or is suspended at its \<open>await fetch(...)\<close>.\<close>

datatype 'a call = Returned 'a | Awaiting

text \<open>Decimal rendering of a number inside a template string.\<close>

fun show_nat :: "nat \<Rightarrow> string" where
  "show_nat n =
     (if n < 10 then [''0123456789'' ! n]
      else show_nat (n div 10) @ [''0123456789'' ! (n mod 10)])"

declare show_nat.simps [simp del]

text \<open>
  \<open>fileName.includes('/') ? fileName.split('/').pop() : fileName\<close>: the part after the
  last slash.
\<close>

definition actualFileName :: "string \<Rightarrow> string" where
  "actualFileName fileName =
     (if CHR ''/'' \<in> set fileName
      then rev (takeWhile (\<lambda>c. c \<noteq> CHR ''/'') (rev fileName))
      else fileName)"


section \<open>AudioFilesPage\<close>

text \<open>
  The component state is the \<open>useState\<close> cells of \<open>AudioFilesPage\<close>. A handler is a closure
  of the render that created it: it reads \<open>audioFiles\<close>, \<open>expandedTrack\<close>, \<open>audioSources\<close>
  and \<open>pendingFetches\<close> as they were in that render, also after an \<open>await\<close>, while the
  functional updaters \<open>setX(prev => ...)\<close> act on the state of the moment. Every handler
  below therefore takes the render \<open>r\<close> it belongs to and the current state \<open>w\<close>; a
  handler started from the latest render has \<open>r = w\<close>. An async handler is cut at its
  \<open>await fetch(...)\<close> into a \<open>_begin\<close> part and a \<open>_resume\<close> part that receives the reply.

  \<open>audioSources\<close> is an object used as a dictionary from file names to object URLs. The
  cleanup of the effect on it walks its entries, so it is kept as an association list
  in insertion order: \<open>{...prev, [f]: url}\<close> is \<open>AList.update\<close>, \<open>delete newSources[f]\<close> is
  \<open>AList.delete\<close>, and \<open>audioSources[f]\<close> is \<open>map_of\<close>.
\<close>

record descriptor =
  id_d :: nat
  title :: string
  description :: "string option"
  artist :: string
  audio_category :: "string option"
  duration :: string
  fileName :: string
  filePath :: "string option"

record page = browser +
  audioFiles :: "descriptor list"
  loading :: bool
  error :: "string option"
  expandedTrack :: "nat option"
  audioSources :: "(string \<times> url) list"
  fetchingAudio :: bool
  pendingFetches :: "string \<rightharpoonup> bool"

definition AudioFilesPage_init :: page where
  "AudioFilesPage_init =
     \<lparr>storage = Map.empty, nextUrl = 0, effects = [],
      audioFiles = [], loading = True, error = None, expandedTrack = None,
      audioSources = [], fetchingAudio = False, pendingFetches = Map.empty\<rparr>"

definition createObjectURL :: "'a browser_scheme \<Rightarrow> url \<times> 'a browser_scheme" where
  "createObjectURL w =
     (nextUrl w, w\<lparr>nextUrl := Suc (nextUrl w), effects := CreateObjectURL (nextUrl w) # effects w\<rparr>)"

subsection \<open>fetchAudioSource\<close>

text \<open>The \<open>finally\<close> block: it runs on every exit of the \<open>try\<close>, the early return included.\<close>

definition fetchAudioSource_finally :: "string \<Rightarrow> page \<Rightarrow> page" where
  "fetchAudioSource_finally f w =
     w\<lparr>fetchingAudio := False, pendingFetches := (pendingFetches w)(f := None)\<rparr>"

text \<open>The \<open>catch\<close> block: an abort is only logged, any other error is shown in an alert.\<close>

definition fetchAudioSource_catch :: "string \<Rightarrow> string \<Rightarrow> page \<Rightarrow> page" where
  "fetchAudioSource_catch name msg w =
     (if name = ''AbortError'' then w
      else emit (Alert (''Failed to load audio: '' @ msg)) w)"

definition fetchAudioSource_begin :: "page \<Rightarrow> string \<Rightarrow> page \<Rightarrow> url option call \<times> page" where
  "fetchAudioSource_begin r f w =
     (if pendingFetches r f = Some True
      then (Returned None, fetchAudioSource_finally f w)
      else (Awaiting,
            emit (Fetch ''GET'' (''/stream/'' @ actualFileName f))
              (w\<lparr>fetchingAudio := True, pendingFetches := (pendingFetches w)(f \<mapsto> True)\<rparr>)))"

definition fetchAudioSource_resume :: "page \<Rightarrow> string \<Rightarrow> unit reply \<Rightarrow> page \<Rightarrow> url option \<times> page" where
  "fetchAudioSource_resume r f resp w =
     (case resp of
        Rejects name msg \<Rightarrow>
          (None, fetchAudioSource_finally f (fetchAudioSource_catch name msg w))
      | Resolves status statusText b \<Rightarrow>
          if \<not> ok status
          then (None, fetchAudioSource_finally f
                        (fetchAudioSource_catch ''Error''
                           (''Error streaming audio: '' @ show_nat status @ '' '' @ statusText) w))
          else
            let w1 = (case map_of (audioSources r) f of
                        Some old \<Rightarrow> emit (RevokeObjectURL old) w
                      | None \<Rightarrow> w)
            in (case b of
                  Unreadable name msg \<Rightarrow>
                    (None, fetchAudioSource_finally f (fetchAudioSource_catch name msg w1))
                | _ \<Rightarrow>
                    let (u, w2) = createObjectURL w1;
                        w3 = w2\<lparr>audioSources := AList.update f u (audioSources w2)\<rparr>
                    in (Some u, fetchAudioSource_finally f w3)))"

subsection \<open>handlePlayError\<close>

text \<open>
  \<open>e_error\<close> is the truth value of \<open>e.target.error\<close>. After \<open>await fetchAudioSource\<close> the
  handler only logs, so it resumes as \<open>fetchAudioSource_resume\<close> does.
\<close>

definition handlePlayError_begin :: "page \<Rightarrow> bool \<Rightarrow> string \<Rightarrow> page \<Rightarrow> unit call \<times> page" where
  "handlePlayError_begin r e_error f w =
     (if map_of (audioSources r) f = None \<or> e_error
      then
        let w1 = (case map_of (audioSources r) f of
                    Some u \<Rightarrow>
                      (emit (RevokeObjectURL u) w)\<lparr>audioSources := AList.delete f (audioSources w)\<rparr>
                  | None \<Rightarrow> w)
        in if pendingFetches r f = Some True then (Returned (), w1)
           else (case fetchAudioSource_begin r f w1 of
                   (Returned _, w2) \<Rightarrow> (Returned (), w2)
                 | (Awaiting, w2) \<Rightarrow> (Awaiting, w2))
      else (Returned (), w))"

subsection \<open>toggleTrack\<close>

text \<open>
  Pausing the player has no effect on the state modelled here. As in \<open>handlePlayError\<close>,
  nothing but the fetch is awaited.
\<close>

definition toggleTrack_begin :: "page \<Rightarrow> nat \<Rightarrow> page \<Rightarrow> unit call \<times> page" where
  "toggleTrack_begin r audioId w =
     (if expandedTrack r = Some audioId then (Returned (), w\<lparr>expandedTrack := None\<rparr>)
      else
        let w1 = w\<lparr>expandedTrack := Some audioId\<rparr>
        in (case find (\<lambda>file. id_d file = audioId) (audioFiles r) of
              None \<Rightarrow> (Returned (), w1)
            | Some audioFile \<Rightarrow>
                if map_of (audioSources r) (fileName audioFile) = None
                then (case fetchAudioSource_begin r (fileName audioFile) w1 of
                        (Returned _, w2) \<Rightarrow> (Returned (), w2)
                      | (Awaiting, w2) \<Rightarrow> (Awaiting, w2))
                else (Returned (), w1)))"


subsection \<open>handleDelete\<close>

text \<open>
  The reply to the DELETE carries, as its parsed body, the truthy \<open>error\<close> member of
  the JSON result if there is one; a body that cannot be read or parsed counts as \<open>{}\<close>
  (\<open>response.json().catch(() => ({}))\<close>).
\<close>

definition handleDelete_begin :: "string \<Rightarrow> page \<Rightarrow> page" where
  "handleDelete_begin f w =
     emit (Fetch ''DELETE'' (''/delete/'' @ actualFileName f)) (w\<lparr>loading := True\<rparr>)"

definition handleDelete_catch :: "string \<Rightarrow> page \<Rightarrow> page" where
  "handleDelete_catch msg w = emit (Alert (''Failed to delete audio: '' @ msg)) w"

text \<open>
  \<open>expandedTrack && audioFiles.find(file => file.id === expandedTrack)?.fileName === f\<close>,
  read in the render \<open>r\<close>; the id 0 is falsy.
\<close>

definition expandedIs :: "page \<Rightarrow> string \<Rightarrow> bool" where
  "expandedIs r f =
     (case expandedTrack r of
        None \<Rightarrow> False
      | Some i \<Rightarrow>
          i \<noteq> 0 \<and>
          (case find (\<lambda>file. id_d file = i) (audioFiles r) of
             None \<Rightarrow> False
           | Some d \<Rightarrow> fileName d = f))"

definition handleDelete_success :: "page \<Rightarrow> string \<Rightarrow> page \<Rightarrow> page" where
  "handleDelete_success r f w =
     (let w1 = w\<lparr>audioFiles := filter (\<lambda>file. fileName file \<noteq> f) (audioFiles w)\<rparr>;
          w2 = (case map_of (audioSources r) f of
                  Some u \<Rightarrow>
                    (emit (RevokeObjectURL u) w1)\<lparr>audioSources := AList.delete f (audioSources w1)\<rparr>
                | None \<Rightarrow> w1);
          w3 = (if expandedIs r f then w2\<lparr>expandedTrack := None\<rparr> else w2)
      in emit (Alert (''Successfully deleted '' @ actualFileName f)) w3)"

definition handleDelete_resume :: "page \<Rightarrow> string \<Rightarrow> string option reply \<Rightarrow> page \<Rightarrow> page" where
  "handleDelete_resume r f resp w =
     (let w' =
        (case resp of
           Rejects name msg \<Rightarrow> handleDelete_catch msg w
         | Resolves status statusText b \<Rightarrow>
             if \<not> ok status
             then handleDelete_catch
                    (''Error deleting audio: '' @ show_nat status @ '' '' @ statusText) w
             else (case b of
                     Json (Some e) \<Rightarrow> handleDelete_catch e w
                   | _ \<Rightarrow> handleDelete_success r f w))
      in w'\<lparr>loading := False\<rparr>)"

text \<open>The DELETE is confirmed: the reply is ok and its body has no truthy \<open>error\<close> member.\<close>

definition deleteConfirmed :: "string option reply \<Rightarrow> bool" where
  "deleteConfirmed resp =
     (case resp of
        Rejects name msg \<Rightarrow> False
      | Resolves status statusText b \<Rightarrow>
          ok status \<and> (case b of Json (Some e) \<Rightarrow> False | _ \<Rightarrow> True))"

subsection \<open>handleDownload\<close>

definition handleDownload_begin :: "string \<Rightarrow> page \<Rightarrow> page" where
  "handleDownload_begin f w = emit (Fetch ''GET'' (''/download/'' @ actualFileName f)) w"

definition handleDownload_catch :: "string \<Rightarrow> page \<Rightarrow> page" where
  "handleDownload_catch msg w = emit (Alert (''Failed to download audio: '' @ msg)) w"

definition handleDownload_resume :: "string \<Rightarrow> unit reply \<Rightarrow> page \<Rightarrow> page" where
  "handleDownload_resume ttl resp w =
     (case resp of
        Rejects name msg \<Rightarrow> handleDownload_catch msg w
      | Resolves status statusText b \<Rightarrow>
          if \<not> ok status
          then handleDownload_catch
                 (''Error downloading audio: '' @ show_nat status @ '' '' @ statusText) w
          else (case b of
                  Unreadable name msg \<Rightarrow> handleDownload_catch msg w
                | _ \<Rightarrow> let (u, w1) = createObjectURL w in emit (AnchorClick u ttl) w1))"

subsection \<open>fetchAudioFiles\<close>

text \<open>
  The body of the list reply, as far as the code looks at it: \<open>null\<close> (reading \<open>.files\<close>
  of it throws the TypeError whose message it carries), a value whose \<open>files\<close> member is
  falsy or not an array, or a \<open>files\<close> array. An entry of the array is a string, an object
  (its members taken as strings where present) or anything else.
\<close>

record meta =
  m_fileName :: "string option"
  m_title :: "string option"
  m_audio_description :: "string option"
  m_artist :: "string option"
  m_audio_category :: "string option"
  m_audio_duration :: "string option"
  m_filePath :: "string option"

datatype file_entry = FString string | FObject meta | FOther

datatype list_data = DataNull string | DataNoFiles | DataFiles "file_entry list"

text \<open>\<open>a || b\<close> on a member that is absent, empty or a non-empty string.\<close>

definition js_or :: "string option \<Rightarrow> string \<Rightarrow> string" where
  "js_or a b = (case a of Some s \<Rightarrow> if s = [] then b else s | None \<Rightarrow> b)"

text \<open>
  \<open>.replace(/\.[^/.]+$/, "")\<close> removes the last dot and what follows it, when what
  follows is non-empty and has no slash; \<open>.replace(/_/g, " ")\<close> turns underscores into
  spaces.
\<close>

definition strip_ext :: "string \<Rightarrow> string" where
  "strip_ext s =
     (let ext = takeWhile (\<lambda>c. c \<noteq> CHR ''.'') (rev s)
      in if CHR ''.'' \<in> set s \<and> ext \<noteq> [] \<and> CHR ''/'' \<notin> set ext
         then take (length s - Suc (length ext)) s
         else s)"

definition display_title :: "string \<Rightarrow> string" where
  "display_title s = map (\<lambda>c. if c = CHR ''_'' then CHR '' '' else c) (strip_ext s)"

definition formatFile :: "nat \<Rightarrow> file_entry \<Rightarrow> descriptor" where
  "formatFile index file =
     (case file of
        FString s \<Rightarrow>
          \<lparr>id_d = index + 1, title = display_title s, description = Some [],
           artist = ''Unknown Artist'', audio_category = Some [], duration = ''--:--'',
           fileName = s, filePath = Some []\<rparr>
      | FObject m \<Rightarrow>
          \<lparr>id_d = index + 1,
           title = display_title
                     (js_or (m_fileName m) (js_or (m_title m) (''Track '' @ show_nat (index + 1)))),
           description = Some (js_or (m_audio_description m) []),
           artist = js_or (m_artist m) ''Unknown Artist'',
           audio_category = Some (js_or (m_audio_category m) []),
           duration = js_or (m_audio_duration m) ''--:--'',
           fileName = js_or (m_fileName m) (''track_'' @ show_nat (index + 1) @ ''.mp3''),
           filePath = Some (js_or (m_filePath m) [])\<rparr>
      | FOther \<Rightarrow>
          \<lparr>id_d = index + 1, title = ''Track '' @ show_nat (index + 1), description = None,
           artist = ''Unknown Artist'', audio_category = None, duration = ''--:--'',
           fileName = ''track_'' @ show_nat (index + 1) @ ''.mp3'', filePath = None\<rparr>)"

definition sample :: "nat \<Rightarrow> string \<Rightarrow> string \<Rightarrow> string \<Rightarrow> string \<Rightarrow> descriptor" where
  "sample i t a d f =
     \<lparr>id_d = i, title = t, description = None, artist = a, audio_category = None,
      duration = d, fileName = f, filePath = None\<rparr>"

definition fallbackAudioFiles :: "descriptor list" where
  "fallbackAudioFiles =
     [sample 1 ''Trombone Duet'' ''John Doe'' ''3:45'' ''trombone_duet.mp3'',
      sample 2 ''Piano Sonata'' ''Jane Smith'' ''5:20'' ''piano_sonata.mp3'',
      sample 3 ''Drum Solo'' ''Mike Johnson'' ''2:15'' ''drum_solo.mp3'',
      sample 4 ''Ambient Sounds'' ''Sarah Williams'' ''4:30'' ''ambient_sounds.mp3'',
      sample 5 ''Electronic Beat'' ''David Brown'' ''3:10'' ''electronic_beat.mp3'']"

definition fetchAudioFiles_begin :: "page \<Rightarrow> page" where
  "fetchAudioFiles_begin w = emit (Fetch ''GET'' ''/list-files'') (w\<lparr>loading := True\<rparr>)"

definition fetchAudioFiles_catch :: "string \<Rightarrow> page \<Rightarrow> page" where
  "fetchAudioFiles_catch msg w = w\<lparr>error := Some msg, audioFiles := fallbackAudioFiles\<rparr>"

definition fetchAudioFiles_resume :: "list_data reply \<Rightarrow> page \<Rightarrow> page" where
  "fetchAudioFiles_resume resp w =
     (let w' =
        (case resp of
           Rejects name msg \<Rightarrow> fetchAudioFiles_catch msg w
         | Resolves status statusText b \<Rightarrow>
             if \<not> ok status
             then fetchAudioFiles_catch (''Error fetching audio files: '' @ statusText)
                    (emit (RouterPush ''/login'') w)
             else (case b of
                     Unreadable name msg \<Rightarrow> fetchAudioFiles_catch msg w
                   | NotJson msg \<Rightarrow> fetchAudioFiles_catch msg w
                   | Json (DataNull msg) \<Rightarrow> fetchAudioFiles_catch msg w
                   | Json DataNoFiles \<Rightarrow>
                       fetchAudioFiles_catch ''Server response is not in the expected format'' w
                   | Json (DataFiles files) \<Rightarrow>
                       w\<lparr>audioFiles := map (\<lambda>(index, file). formatFile index file)
                                           (enumerate 0 files)\<rparr>))
      in w'\<lparr>loading := False\<rparr>)"


subsection \<open>The effect on audioSources\<close>

text \<open>
  The cleanup of the effect that depends on \<open>audioSources\<close>. React runs it, with the map of
  the render \<open>r\<close> that registered it, when a later render has another map and when the
  component unmounts. It revokes every object URL of that map; the values of the map are
  minted object URLs, which all start with \<open>blob:\<close>. Pausing the player has no effect on
  the state modelled here.
\<close>

definition audioSources_cleanup :: "page \<Rightarrow> page \<Rightarrow> page" where
  "audioSources_cleanup r w = fold (\<lambda>(key, u). emit (RevokeObjectURL u)) (audioSources r) w"

subsection \<open>Runs of the page\<close>

text \<open>
  What can happen to the page, one step at a time: a handler starts, a reply arrives and
  the handler waiting for it resumes, or the cleanup runs. A step belongs to a render,
  which need not be the latest one.
\<close>

datatype action =
    ListBegin
  | ListReply "list_data reply"
  | Toggle nat
  | FetchBegin string
  | FetchReply string "unit reply"
  | PlayError bool string
  | DeleteBegin string
  | DeleteReply string "string option reply"
  | DownloadBegin string
  | DownloadReply string "unit reply"
  | Cleanup

fun step :: "page \<Rightarrow> action \<Rightarrow> page \<Rightarrow> page" where
  "step r ListBegin w = fetchAudioFiles_begin w"
| "step r (ListReply resp) w = fetchAudioFiles_resume resp w"
| "step r (Toggle audioId) w = snd (toggleTrack_begin r audioId w)"
| "step r (FetchBegin f) w = snd (fetchAudioSource_begin r f w)"
| "step r (FetchReply f resp) w = snd (fetchAudioSource_resume r f resp w)"
| "step r (PlayError e_error f) w = snd (handlePlayError_begin r e_error f w)"
| "step r (DeleteBegin f) w = handleDelete_begin f w"
| "step r (DeleteReply f resp) w = handleDelete_resume r f resp w"
| "step r (DownloadBegin f) w = handleDownload_begin f w"
| "step r (DownloadReply ttl resp) w = handleDownload_resume ttl resp w"
| "step r Cleanup w = audioSources_cleanup r w"

text \<open>
  A run is a list of actions, each with the number of its render counted back from the
  current state: 0 is the current state, 1 the state before the last step, and so on. It
  acts on the current state and the list of the earlier states, newest first.
\<close>

definition render :: "nat \<Rightarrow> page \<Rightarrow> page list \<Rightarrow> page" where
  "render k w olds = (if 0 < k \<and> k \<le> length olds then olds ! (k - 1) else w)"

fun run :: "(nat \<times> action) list \<Rightarrow> page \<times> page list \<Rightarrow> page \<times> page list" where
  "run [] c = c"
| "run ((k, a) # evs) (w, olds) = run evs (step (render k w olds) a w, w # olds)"

text \<open>
  Every handle of the current and of the earlier states was minted before now, and the
  object URL \<open>d\<close> is kept: it was minted before now, is live, and is a handle in none of
  the states.
\<close>

definition minted :: "page \<times> page list \<Rightarrow> bool" where
  "minted c =
     list_all (\<lambda>r. list_all (\<lambda>(key, u). u < nextUrl (fst c)) (audioSources r)) (fst c # snd c)"

definition kept :: "url \<Rightarrow> page \<times> page list \<Rightarrow> bool" where
  "kept d c =
     (d < nextUrl (fst c) \<and> d \<in> liveUrls (effects (fst c))
      \<and> list_all (\<lambda>r. d \<notin> snd ` set (audioSources r)) (fst c # snd c))"


section \<open>The authentication helpers\<close>

text \<open>
  The module keeps \<open>lastAuthCheck\<close>, \<open>userCache\<close> and \<open>lastUserFetch\<close> in module variables and
  the session in \<open>sessionStorage\<close> under the keys \<open>token\<close>, \<open>isAuthenticated\<close>, \<open>username\<close>
  and \<open>_authDispatchedEvent\<close>. Times are \<open>Date.now()\<close> in milliseconds. The code runs in
  the browser, so \<open>typeof window\<close> is never \<open>'undefined'\<close>.
\<close>

record user =
  username :: string
  details :: string

record auth = browser +
  lastAuthCheck :: int
  userCache :: "user option"
  lastUserFetch :: int

definition AUTH_CACHE_DURATION :: int where
  "AUTH_CACHE_DURATION = 60000"

definition USER_CACHE_DURATION :: int where
  "USER_CACHE_DURATION = 300000"

definition setItem :: "string \<Rightarrow> string \<Rightarrow> 'a browser_scheme \<Rightarrow> 'a browser_scheme" where
  "setItem k v a = a\<lparr>storage := (storage a)(k \<mapsto> v)\<rparr>"

definition removeItem :: "string \<Rightarrow> 'a browser_scheme \<Rightarrow> 'a browser_scheme" where
  "removeItem k a = a\<lparr>storage := (storage a)(k := None)\<rparr>"

text \<open>\<open>sessionStorage.getItem('token') || null\<close>: an empty token is no token.\<close>

definition getToken :: "'a browser_scheme \<Rightarrow> string option" where
  "getToken a =
     (case storage a ''token'' of
        Some t \<Rightarrow> if t = [] then None else Some t
      | None \<Rightarrow> None)"

definition isAuthenticated :: "'a browser_scheme \<Rightarrow> bool" where
  "isAuthenticated a = (getToken a \<noteq> None \<and> storage a ''isAuthenticated'' = Some ''true'')"

definition logout :: "'a auth_scheme \<Rightarrow> 'a auth_scheme" where
  "logout a =
     emit (DispatchEvent ''logout'')
       ((removeItem ''_authDispatchedEvent''
          (removeItem ''username''
            (removeItem ''isAuthenticated''
              (removeItem ''token'' a))))
        \<lparr>lastAuthCheck := 0, userCache := None, lastUserFetch := 0\<rparr>)"

subsection \<open>validateTokenAsync\<close>

definition validateTokenAsync_begin :: "int \<Rightarrow> 'a auth_scheme \<Rightarrow> 'a auth_scheme" where
  "validateTokenAsync_begin now a = emit (Fetch ''GET'' ''/users/me'') (a\<lparr>lastAuthCheck := now\<rparr>)"

definition validateTokenAsync_ok :: "int \<Rightarrow> user \<Rightarrow> 'a auth_scheme \<Rightarrow> 'a auth_scheme" where
  "validateTokenAsync_ok now userData a =
     (let a1 = setItem ''isAuthenticated'' ''true'' a;
          a2 = (if username userData \<noteq> [] then setItem ''username'' (username userData) a1 else a1);
          a3 = a2\<lparr>userCache := Some userData, lastUserFetch := now\<rparr>
      in if storage a3 ''_authDispatchedEvent'' \<noteq> Some ''true''
         then emit (DispatchEvent ''login'') (setItem ''_authDispatchedEvent'' ''true'' a3)
         else a3)"

definition validateTokenAsync_resume :: "int \<Rightarrow> user reply \<Rightarrow> 'a auth_scheme \<Rightarrow> bool \<times> 'a auth_scheme" where
  "validateTokenAsync_resume now resp a =
     (case resp of
        Rejects name msg \<Rightarrow> (False, a\<lparr>userCache := None\<rparr>)
      | Resolves status statusText b \<Rightarrow>
          if ok status
          then (case b of
                  Json userData \<Rightarrow> (True, validateTokenAsync_ok now userData a)
                | _ \<Rightarrow> (False, a\<lparr>userCache := None\<rparr>))
          else (case b of
                  Unreadable name msg \<Rightarrow> (False, a\<lparr>userCache := None\<rparr>)
                | _ \<Rightarrow>
                    (False,
                     (removeItem ''_authDispatchedEvent''
                       (removeItem ''token''
                         (removeItem ''username''
                           (removeItem ''isAuthenticated'' a))))
                     \<lparr>userCache := None\<rparr>)))"

subsection \<open>checkAuthStatus\<close>

text \<open>
  \<open>Returned b\<close> is the answer of a call that did not wait; when the cache window has
  elapsed the answer is \<open>true\<close> and a validation has been started in the background.
  \<open>Awaiting\<close> is the call that waits for \<open>validateTokenAsync\<close> and returns its result.
\<close>

definition checkAuthStatus_begin :: "int \<Rightarrow> 'a auth_scheme \<Rightarrow> bool call \<times> 'a auth_scheme" where
  "checkAuthStatus_begin now a =
     (case getToken a of
        None \<Rightarrow> (Returned False, removeItem ''username'' (removeItem ''isAuthenticated'' a))
      | Some token \<Rightarrow>
          if storage a ''isAuthenticated'' = Some ''true''
          then (if now - lastAuthCheck a < AUTH_CACHE_DURATION
                then (Returned True, a)
                else (Returned True, validateTokenAsync_begin now a))
          else (Awaiting, validateTokenAsync_begin now a))"

definition checkAuthStatus_resume :: "int \<Rightarrow> user reply \<Rightarrow> 'a auth_scheme \<Rightarrow> bool \<times> 'a auth_scheme" where
  "checkAuthStatus_resume now resp a = validateTokenAsync_resume now resp a"

subsection \<open>getCurrentUser\<close>

datatype progress = Done "user option" | AwaitingAuth | AwaitingUser

text \<open>The part after \<open>await checkAuthStatus()\<close> has answered \<open>true\<close>.\<close>

definition getCurrentUser_authed :: "bool \<Rightarrow> int \<Rightarrow> 'a auth_scheme \<Rightarrow> progress \<times> 'a auth_scheme" where
  "getCurrentUser_authed forceRefresh now a =
     (if \<not> forceRefresh \<and> userCache a \<noteq> None \<and> now - lastUserFetch a < USER_CACHE_DURATION
      then (Done (userCache a), a)
      else (AwaitingUser, emit (Fetch ''GET'' ''/users/me'') a))"

definition getCurrentUser_begin :: "bool \<Rightarrow> int \<Rightarrow> 'a auth_scheme \<Rightarrow> progress \<times> 'a auth_scheme" where
  "getCurrentUser_begin forceRefresh now a =
     (case getToken a of
        None \<Rightarrow> (Done None, a)
      | Some token \<Rightarrow>
          (case checkAuthStatus_begin now a of
             (Returned isAuth, a1) \<Rightarrow>
               if isAuth then getCurrentUser_authed forceRefresh now a1 else (Done None, a1)
           | (Awaiting, a1) \<Rightarrow> (AwaitingAuth, a1)))"

definition getCurrentUser_resume_auth ::
  "bool \<Rightarrow> int \<Rightarrow> user reply \<Rightarrow> 'a auth_scheme \<Rightarrow> progress \<times> 'a auth_scheme" where
  "getCurrentUser_resume_auth forceRefresh now resp a =
     (case checkAuthStatus_resume now resp a of
        (isAuth, a1) \<Rightarrow>
          if isAuth then getCurrentUser_authed forceRefresh now a1 else (Done None, a1))"

text \<open>The reply of the current-user endpoint; \<open>now\<close> is the time read before the request.\<close>

definition getCurrentUser_resume :: "int \<Rightarrow> user reply \<Rightarrow> 'a auth_scheme \<Rightarrow> user option \<times> 'a auth_scheme" where
  "getCurrentUser_resume now resp a =
     (case resp of
        Rejects name msg \<Rightarrow> (None, a)
      | Resolves status statusText b \<Rightarrow>
          if ok status
          then (case b of
                  Json userData \<Rightarrow> (Some userData, a\<lparr>userCache := Some userData, lastUserFetch := now\<rparr>)
                | _ \<Rightarrow> (None, a))
          else (let a1 = a\<lparr>userCache := None\<rparr>
                in (None, if status = 401 then logout a1 else a1)))"


section \<open>LoginPage and HomePage\<close>

record login_body =
  access_token :: "string option"
  detail :: "string option"

record login_page = auth +
  error_l :: string
  isLoading :: bool

text \<open>\<open>sessionStorage.setItem\<close> stores the string of its argument, \<open>undefined\<close> included.\<close>

definition js_string :: "string option \<Rightarrow> string" where
  "js_string v = (case v of Some s \<Rightarrow> s | None \<Rightarrow> ''undefined'')"

definition handleLogin_begin :: "string \<Rightarrow> string \<Rightarrow> login_page \<Rightarrow> unit call \<times> login_page" where
  "handleLogin_begin uname password w =
     (let w1 = w\<lparr>error_l := []\<rparr>
      in if uname = [] \<or> password = []
         then (Returned (), w1\<lparr>error_l := ''Username and password are required.''\<rparr>)
         else (Awaiting, emit (Fetch ''POST'' ''/login'') (w1\<lparr>isLoading := True\<rparr>)))"

definition handleLogin_resume :: "string \<Rightarrow> login_body reply \<Rightarrow> login_page \<Rightarrow> login_page" where
  "handleLogin_resume uname resp w =
     (let network = ''Network error. Please check your connection and try again.'';
          w' =
        (case resp of
           Rejects name msg \<Rightarrow> w\<lparr>error_l := network\<rparr>
         | Resolves status statusText b \<Rightarrow>
             if ok status
             then (case b of
                     Json data \<Rightarrow>
                       emit (RouterPush ''/'')
                         (emit (DispatchEvent ''login'')
                           (setItem ''username'' uname
                             (setItem ''isAuthenticated'' ''true''
                               (setItem ''token'' (js_string (access_token data)) w))))
                   | _ \<Rightarrow> w\<lparr>error_l := network\<rparr>)
             else if status = 401 then w\<lparr>error_l := ''Invalid username or password.''\<rparr>
             else (case b of
                     Json errorData \<Rightarrow>
                       w\<lparr>error_l := js_or (detail errorData) ''Login failed. Please try again.''\<rparr>
                   | _ \<Rightarrow> w\<lparr>error_l := ''Login failed. Please try again.''\<rparr>))
      in w'\<lparr>isLoading := False\<rparr>)"

definition login_init :: login_page where
  "login_init =
     \<lparr>storage = Map.empty, nextUrl = 0, effects = [],
      lastAuthCheck = 0, userCache = None, lastUserFetch = 0,
      error_l = [], isLoading = False\<rparr>"

text \<open>
  The effect of \<open>HomePage\<close> on mount: it asks \<open>isAuthenticated()\<close>, dispatches \<open>login\<close> when
  the answer is true and navigates to the login route otherwise; the answer becomes its
  \<open>isAuth\<close> state.
\<close>

definition HomePage_checkAuth :: "'a auth_scheme \<Rightarrow> bool \<times> 'a auth_scheme" where
  "HomePage_checkAuth a =
     (if isAuthenticated a then (True, emit (DispatchEvent ''login'') a)
      else (False, emit (RouterPush ''/login'') a))"


section \<open>UploadPage\<close>

text \<open>
  The listeners that \<open>handleSubmit\<close> puts on the request. \<open>JSON.parse(xhr.responseText)\<close>
  throws a SyntaxError or yields a value: \<open>null\<close>, whose members cannot be read, or a
  value with the members \<open>filename\<close> and \<open>detail\<close> where it has them. A listener runs
  after \<open>handleSubmit\<close> has returned, so what it throws is caught by nobody.
\<close>

datatype upload_json = JNull | JValue "string option" "string option"

datatype 'a json_parse = SyntaxError string | Value 'a

record upload_page =
  file_u :: "string option"
  isUploading :: bool
  uploadProgress :: nat
  message :: string
  error_u :: string
  audioDescription :: string
  audioCategory :: string
  audioLength :: "nat option"

text \<open>The result of a listener: the exception that escaped it, if any, and the state.\<close>

definition handleSubmit_load ::
  "nat \<Rightarrow> upload_json json_parse \<Rightarrow> upload_page \<Rightarrow> (string \<times> string) option \<times> upload_page" where
  "handleSubmit_load status parsed w =
     (if 200 \<le> status \<and> status < 300
      then (case parsed of
              SyntaxError msg \<Rightarrow> (Some (''SyntaxError'', msg), w)
            | Value JNull \<Rightarrow>
                (Some (''TypeError'', ''Cannot read properties of null''), w)
            | Value (JValue fname dtl) \<Rightarrow>
                (None,
                 w\<lparr>message := ''File uploaded successfully: '' @ js_string fname,
                   file_u := None, audioDescription := [], audioCategory := [],
                   audioLength := None, uploadProgress := 100, isUploading := False\<rparr>))
      else
        (let errorMsg =
           (case parsed of
              Value (JValue fname dtl) \<Rightarrow> js_or dtl ''Upload failed''
            | _ \<Rightarrow> ''Upload failed'')
         in (None, w\<lparr>error_u := errorMsg, isUploading := False\<rparr>)))"

definition handleSubmit_error :: "upload_page \<Rightarrow> upload_page" where
  "handleSubmit_error w = w\<lparr>error_u := ''Network error occurred while uploading'', isUploading := False\<rparr>"

definition handleSubmit_abort :: "upload_page \<Rightarrow> upload_page" where
  "handleSubmit_abort w = w\<lparr>error_u := ''Upload was aborted'', isUploading := False\<rparr>"

text \<open>The state in which the request is under way, as \<open>handleSubmit\<close> leaves it.\<close>

definition uploading :: "string \<Rightarrow> string \<Rightarrow> string \<Rightarrow> nat option \<Rightarrow> upload_page" where
  "uploading name desc cat len =
     \<lparr>file_u = Some name, isUploading = True, uploadProgress = 0, message = [], error_u = [],
      audioDescription = desc, audioCategory = cat, audioLength = len\<rparr>"


section \<open>Scenarios\<close>

text \<open>
  Concrete runs of the handlers, used below. Each handler is started from the render of
  the moment (\<open>r = w\<close>) and resumed, when its reply arrives, in that same render.
\<close>

definition audio :: "unit reply" where
  "audio = Resolves 200 ''OK'' (NotJson ''Unexpected token'')"

text \<open>
  Three calls of \<open>fetchAudioSource\<close> for one file, a render after each, before any reply;
  then the replies of the two requests that were sent.
\<close>

definition dup_w1 :: page where
  "dup_w1 = snd (fetchAudioSource_begin AudioFilesPage_init ''a.mp3'' AudioFilesPage_init)"

definition dup_w2 :: page where
  "dup_w2 = snd (fetchAudioSource_begin dup_w1 ''a.mp3'' dup_w1)"

definition dup_w3 :: page where
  "dup_w3 = snd (fetchAudioSource_begin dup_w2 ''a.mp3'' dup_w2)"

definition dup_w4 :: page where
  "dup_w4 = snd (fetchAudioSource_resume AudioFilesPage_init ''a.mp3'' audio dup_w3)"

definition dup_w5 :: page where
  "dup_w5 = snd (fetchAudioSource_resume dup_w2 ''a.mp3'' audio dup_w4)"

text \<open>
  The list holds one file. Its track is expanded, which starts the fetch of its audio;
  the file is deleted while that fetch is in flight; the audio arrives; the DELETE is
  confirmed.
\<close>

definition del_w0 :: page where
  "del_w0 =
     fetchAudioFiles_resume (Resolves 200 ''OK'' (Json (DataFiles [FString ''a.mp3''])))
       (fetchAudioFiles_begin AudioFilesPage_init)"

definition del_w1 :: page where
  "del_w1 = snd (toggleTrack_begin del_w0 1 del_w0)"

definition del_w2 :: page where
  "del_w2 = handleDelete_begin ''a.mp3'' del_w1"

definition del_w3 :: page where
  "del_w3 = snd (fetchAudioSource_resume del_w0 ''a.mp3'' audio del_w2)"

definition del_w4 :: page where
  "del_w4 = handleDelete_resume del_w1 ''a.mp3'' (Resolves 200 ''OK'' (Json None)) del_w3"

text \<open>A login that the server accepts, followed by the mount of \<open>HomePage\<close>.\<close>

definition login_ok :: "login_body reply" where
  "login_ok = Resolves 200 ''OK'' (Json \<lparr>access_token = Some ''tok'', detail = None\<rparr>)"

definition logged_in :: login_page where
  "logged_in =
     handleLogin_resume ''alice'' login_ok (snd (handleLogin_begin ''alice'' ''secret'' login_init))"

definition at_home :: login_page where
  "at_home = snd (HomePage_checkAuth logged_in)"

text \<open>
  After that login a validation is started at time 100000 and the server accepts the
  token at time 130000. In \<open>verified\<close> nothing else happens in between; in \<open>raced\<close> the
  user logs out while the validation is in flight.
\<close>

definition alice :: "user reply" where
  "alice = Resolves 200 ''OK'' (Json \<lparr>username = ''alice'', details = ''user''\<rparr>)"

definition verified :: login_page where
  "verified =
     snd (validateTokenAsync_resume 130000 alice (validateTokenAsync_begin 100000 logged_in))"

definition raced :: login_page where
  "raced =
     snd (validateTokenAsync_resume 130000 alice
            (logout (validateTokenAsync_begin 100000 logged_in)))"

text \<open>A session verified at time 1000 whose user is cached, and a session without token.\<close>

definition bob :: user where
  "bob = \<lparr>username = ''bob'', details = ''admin''\<rparr>"

definition cached :: auth where
  "cached =
     \<lparr>storage = [''token'' \<mapsto> ''tok'', ''isAuthenticated'' \<mapsto> ''true'', ''username'' \<mapsto> ''bob'',
                 ''_authDispatchedEvent'' \<mapsto> ''true''],
      nextUrl = 0, effects = [], lastAuthCheck = 1000, userCache = Some bob, lastUserFetch = 1000\<rparr>"

definition stale :: auth where
  "stale =
     \<lparr>storage = [''isAuthenticated'' \<mapsto> ''true'', ''username'' \<mapsto> ''bob'',
                 ''_authDispatchedEvent'' \<mapsto> ''true''],
      nextUrl = 0, effects = [], lastAuthCheck = 0, userCache = None, lastUserFetch = 0\<rparr>"

text \<open>
  The audio of a file is fetched and arrives, and the download of the file is started.
\<close>

definition dl_c :: "page \<times> page list" where
  "dl_c =
     run [(0, FetchBegin ''a.mp3''), (1, FetchReply ''a.mp3'' audio), (0, DownloadBegin ''a.mp3'')]
       (AudioFilesPage_init, [])"


section \<open>The pending set and the handle map\<close>

text \<open>
  C8. Whenever the render a call of \<open>fetchAudioSource f\<close> belongs to shows \<open>f\<close> as pending,
  the call returns null without sending a request, and its \<open>finally\<close> block has deleted
  \<open>f\<close> from the pending set of the current state: the marker that the fetch still in
  flight had installed is gone.
\<close>

theorem fetchAudioSource_duplicate_clears_marker:
  assumes "pendingFetches r f = Some True"
  shows "fst (fetchAudioSource_begin r f w) = Returned None
       \<and> pendingFetches (snd (fetchAudioSource_begin r f w)) f = None
       \<and> effects (snd (fetchAudioSource_begin r f w)) = effects w
       \<and> audioSources (snd (fetchAudioSource_begin r f w)) = audioSources w"
  using assms by (simp add: fetchAudioSource_begin_def fetchAudioSource_finally_def)

text \<open>
  C8, at the second call of the first scenario: the first fetch is in flight and has left
  its marker, the second call is turned away and takes the marker with it.
\<close>

theorem fetchAudioSource_duplicate_clears_marker_witness:
  "pendingFetches dup_w1 ''a.mp3'' = Some True
 \<and> effects dup_w1 = [Fetch ''GET'' ''/stream/a.mp3'']
 \<and> fst (fetchAudioSource_begin dup_w1 ''a.mp3'' dup_w1) = Returned None
 \<and> pendingFetches (snd (fetchAudioSource_begin dup_w1 ''a.mp3'' dup_w1)) ''a.mp3'' = None
 \<and> effects (snd (fetchAudioSource_begin dup_w1 ''a.mp3'' dup_w1)) = effects dup_w1"
proof -
  have p: "pendingFetches dup_w1 ''a.mp3'' = Some True"
    by (simp add: dup_w1_def fetchAudioSource_begin_def AudioFilesPage_init_def emit_def)
  have e: "effects dup_w1 = [Fetch ''GET'' ''/stream/a.mp3'']"
    by (simp add: dup_w1_def fetchAudioSource_begin_def AudioFilesPage_init_def emit_def
        actualFileName_def)
  from fetchAudioSource_duplicate_clears_marker [OF p, of dup_w1] p e
  show ?thesis by simp
qed

text \<open>
  A call that is turned away clears the way for the next one: started from the render
  that follows, the next call is not turned away and sends the request.
\<close>

lemma fetchAudioSource_rejected_then_accepted:
  assumes "pendingFetches w f = Some True"
  shows "fst (fetchAudioSource_begin (snd (fetchAudioSource_begin w f w)) f
               (snd (fetchAudioSource_begin w f w))) = Awaiting
       \<and> effects (snd (fetchAudioSource_begin (snd (fetchAudioSource_begin w f w)) f
                         (snd (fetchAudioSource_begin w f w)))) =
           Fetch ''GET'' (''/stream/'' @ actualFileName f) # effects w"
  using assms
  by (simp add: fetchAudioSource_begin_def fetchAudioSource_finally_def emit_def)

text \<open>
  C1. The claim is that every further call of \<open>fetchAudioSource f\<close> is turned away while a
  fetch of \<open>f\<close> is in flight. In the first scenario the first call sends the request and
  leaves its marker; the second call is turned away, and its \<open>finally\<close> block removes the
  marker; the third call, made while the first request is still unanswered, is not
  turned away and sends the same request again.
\<close>

theorem fetchAudioSource_third_call_sends_again:
  "fst (fetchAudioSource_begin AudioFilesPage_init ''a.mp3'' AudioFilesPage_init) = Awaiting
 \<and> pendingFetches dup_w1 ''a.mp3'' = Some True
 \<and> fst (fetchAudioSource_begin dup_w1 ''a.mp3'' dup_w1) = Returned None
 \<and> pendingFetches dup_w2 ''a.mp3'' = None
 \<and> fst (fetchAudioSource_begin dup_w2 ''a.mp3'' dup_w2) = Awaiting
 \<and> effects dup_w3 = [Fetch ''GET'' ''/stream/a.mp3'', Fetch ''GET'' ''/stream/a.mp3'']"
  by (simp add: dup_w1_def dup_w2_def dup_w3_def fetchAudioSource_begin_def
      fetchAudioSource_finally_def AudioFilesPage_init_def emit_def actualFileName_def)

text \<open>
  When the fetch succeeds, the handle that the render of the call shows for the file is
  revoked before the new object URL is minted and installed.
\<close>

lemma fetchAudioSource_success_on_render:
  assumes "ok status" and "\<forall>name msg. b \<noteq> Unreadable name msg"
  shows "fst (fetchAudioSource_resume r f (Resolves status txt b) w) = Some (nextUrl w)
       \<and> audioSources (snd (fetchAudioSource_resume r f (Resolves status txt b) w)) =
           AList.update f (nextUrl w) (audioSources w)
       \<and> effects (snd (fetchAudioSource_resume r f (Resolves status txt b) w)) =
           CreateObjectURL (nextUrl w) #
           (case map_of (audioSources r) f of Some old \<Rightarrow> [RevokeObjectURL old] | None \<Rightarrow> [])
           @ effects w
       \<and> pendingFetches (snd (fetchAudioSource_resume r f (Resolves status txt b) w)) f = None"
  using assms
  by (cases b)
     (auto simp: fetchAudioSource_resume_def fetchAudioSource_finally_def createObjectURL_def
        emit_def Let_def split: option.splits)

text \<open>
  C2. The claim is that a successful \<open>fetchAudioSource\<close> revokes the previous handle of the
  file before it installs the new one, over any sequence of operations. In the first
  scenario two fetches of one file are in flight, the second started from a render
  without a handle. The first reply installs the handle 0. When the second reply
  arrives the map holds the handle 0 for the file; the call installs the handle 1
  without revoking 0, and both object URLs are live when it returns. The handle 0 is
  revoked only afterwards, when the new map is committed and the cleanup of the effect
  of the replaced map runs.
\<close>

theorem fetchAudioSource_overlap_keeps_previous_handle_live:
  "audioSources dup_w2 = []
 \<and> audioSources dup_w4 = [(''a.mp3'', 0)]
 \<and> fst (fetchAudioSource_resume dup_w2 ''a.mp3'' audio dup_w4) = Some 1
 \<and> audioSources dup_w5 = [(''a.mp3'', 1)]
 \<and> effects dup_w5 =
     [CreateObjectURL 1, CreateObjectURL 0,
      Fetch ''GET'' ''/stream/a.mp3'', Fetch ''GET'' ''/stream/a.mp3'']
 \<and> liveUrls (effects dup_w5) = {0, 1}
 \<and> liveUrls (effects (audioSources_cleanup dup_w4 dup_w5)) = {1}"
  by (simp add: dup_w1_def dup_w2_def dup_w3_def dup_w4_def dup_w5_def audio_def
      fetchAudioSource_begin_def fetchAudioSource_resume_def fetchAudioSource_finally_def
      createObjectURL_def audioSources_cleanup_def AudioFilesPage_init_def emit_def
      actualFileName_def ok_def insert_commute)


section \<open>handleDelete\<close>

lemma handleDelete_confirmed:
  "deleteConfirmed resp \<Longrightarrow>
   handleDelete_resume r f resp w = (handleDelete_success r f w)\<lparr>loading := False\<rparr>"
  by (auto simp: deleteConfirmed_def handleDelete_resume_def
      split: reply.splits body.splits option.splits)

text \<open>
  A confirmed DELETE removes the descriptors of the file, revokes and drops the handle
  that the render of the call shows for it, and collapses the track if in that render it
  was the expanded one.
\<close>

lemma handleDelete_on_render:
  assumes "deleteConfirmed resp"
  shows "(\<forall>d \<in> set (audioFiles (handleDelete_resume r f resp w)). fileName d \<noteq> f)
       \<and> (\<forall>u. map_of (audioSources r) f = Some u \<longrightarrow>
              map_of (audioSources (handleDelete_resume r f resp w)) f = None
            \<and> u \<notin> liveUrls (effects (handleDelete_resume r f resp w)))
       \<and> (expandedIs r f \<longrightarrow> expandedTrack (handleDelete_resume r f resp w) = None)"
  using assms
  by (auto simp: handleDelete_confirmed handleDelete_success_def emit_def Let_def delete_conv'
      split: option.splits)

text \<open>A DELETE that is not confirmed shows an alert and leaves list, map and track alone.\<close>

lemma handleDelete_failed:
  assumes "\<not> deleteConfirmed resp"
  shows "(\<exists>msg. effects (handleDelete_resume r f resp w) =
                  Alert (''Failed to delete audio: '' @ msg) # effects w)
       \<and> audioFiles (handleDelete_resume r f resp w) = audioFiles w
       \<and> audioSources (handleDelete_resume r f resp w) = audioSources w
       \<and> expandedTrack (handleDelete_resume r f resp w) = expandedTrack w"
  using assms
  by (auto simp: deleteConfirmed_def handleDelete_resume_def handleDelete_catch_def emit_def
      split: reply.splits body.splits option.splits)

text \<open>
  C4. The claim is that after a confirmed DELETE the file has left the list, its handle
  is revoked and has left the handle map, and its track is collapsed. In the second
  scenario the file is deleted while the fetch of its audio is in flight: the render of
  \<open>handleDelete\<close> shows no handle, the audio arrives and installs the handle 0, and the
  confirmed DELETE removes the file from the list but neither revokes the handle nor
  drops it from the map.
\<close>

theorem handleDelete_during_fetch_keeps_handle:
  "fst (toggleTrack_begin del_w0 1 del_w0) = Awaiting
 \<and> map fileName (audioFiles del_w1) = [''a.mp3'']
 \<and> expandedTrack del_w1 = Some 1
 \<and> audioSources del_w1 = []
 \<and> audioSources del_w3 = [(''a.mp3'', 0)]
 \<and> deleteConfirmed (Resolves 200 ''OK'' (Json None))
 \<and> audioFiles del_w4 = []
 \<and> expandedTrack del_w4 = None
 \<and> audioSources del_w4 = [(''a.mp3'', 0)]
 \<and> 0 \<in> liveUrls (effects del_w4)"
  by (simp add: del_w0_def del_w1_def del_w2_def del_w3_def del_w4_def audio_def
      fetchAudioFiles_begin_def fetchAudioFiles_resume_def formatFile_def display_title_def
      strip_ext_def toggleTrack_begin_def fetchAudioSource_begin_def fetchAudioSource_resume_def
      fetchAudioSource_finally_def createObjectURL_def handleDelete_begin_def
      handleDelete_resume_def handleDelete_success_def expandedIs_def deleteConfirmed_def
      AudioFilesPage_init_def emit_def actualFileName_def ok_def)


section \<open>handleDownload\<close>

lemma set_AList_update: "set (AList.update k v al) \<subseteq> insert (k, v) (set al)"
  by (induction al) auto

lemma in_update:
  "(k, u) \<in> set (AList.update f v al) \<Longrightarrow> (k = f \<and> u = v) \<or> (k, u) \<in> set al"
  using set_AList_update [of f v al] by auto

lemma in_delete: "(k, u) \<in> set (AList.delete f al) \<Longrightarrow> (k, u) \<in> set al"
  by (auto simp: AList.delete_eq)

lemma map_of_value: "map_of al k = Some v \<Longrightarrow> v \<in> snd ` set al"
  by (force dest: map_of_SomeD)

text \<open>An object URL stays live over effects that do not revoke it.\<close>

lemma live_append:
  "d \<in> liveUrls es \<Longrightarrow> RevokeObjectURL d \<notin> set new \<Longrightarrow> d \<in> liveUrls (new @ es)"
proof (induction new)
  case Nil
  then show ?case by simp
next
  case (Cons e new)
  then show ?case by (cases e) auto
qed

lemma fold_revoke:
  "fold (\<lambda>(key, u). emit (RevokeObjectURL u)) al w =
     w\<lparr>effects := rev (map (\<lambda>(key, u). RevokeObjectURL u) al) @ effects w\<rparr>"
  by (induction al arbitrary: w) (auto simp: emit_def)

lemma audioSources_cleanup_eq:
  "audioSources_cleanup r w =
     w\<lparr>effects := rev (map (\<lambda>(key, u). RevokeObjectURL u) (audioSources r)) @ effects w\<rparr>"
  by (simp add: audioSources_cleanup_def fold_revoke)

lemmas handler_defs =
  fetchAudioSource_begin_def fetchAudioSource_resume_def fetchAudioSource_finally_def
  fetchAudioSource_catch_def toggleTrack_begin_def handlePlayError_begin_def
  handleDelete_begin_def handleDelete_resume_def handleDelete_success_def handleDelete_catch_def
  handleDownload_begin_def handleDownload_resume_def handleDownload_catch_def
  fetchAudioFiles_begin_def fetchAudioFiles_resume_def fetchAudioFiles_catch_def
  audioSources_cleanup_eq createObjectURL_def emit_def

lemmas handler_splits =
  reply.splits body.splits option.splits list_data.splits prod.splits call.splits if_splits

text \<open>
  What one step of the page can do: the counter of object URLs does not go back; a handle
  of the new state was a handle before or has just been minted; and only handles of the
  render of the step are revoked.
\<close>

lemma step_nextUrl: "nextUrl w \<le> nextUrl (step r a w)"
  by (cases a) (auto simp: handler_defs Let_def split: handler_splits)

lemma step_sources:
  "(k, u) \<in> set (audioSources (step r a w)) \<Longrightarrow>
   (k, u) \<in> set (audioSources w) \<or> (u = nextUrl w \<and> nextUrl w < nextUrl (step r a w))"
  by (cases a) (auto simp: handler_defs Let_def dest: in_update in_delete split: handler_splits)

lemma step_effects:
  "\<exists>new. effects (step r a w) = new @ effects w
       \<and> (\<forall>u. RevokeObjectURL u \<in> set new \<longrightarrow> u \<in> snd ` set (audioSources r))"
proof (cases a)
  case Cleanup
  then show ?thesis by (force simp: audioSources_cleanup_eq)
qed (auto simp: handler_defs Let_def intro: map_of_value split: handler_splits)

lemma render_in: "render k w olds \<in> set (w # olds)"
  by (auto simp: render_def)

lemma minted_step:
  assumes "minted (w, olds)"
  shows "minted (step (render k w olds) a w, w # olds)"
proof -
  let ?w' = "step (render k w olds) a w"
  have le: "nextUrl w \<le> nextUrl ?w'" by (rule step_nextUrl)
  have old: "\<forall>r\<in>set (w # olds). \<forall>(key, u)\<in>set (audioSources r). u < nextUrl ?w'"
    using assms le by (fastforce simp: minted_def list_all_iff)
  have new: "\<forall>(key, u)\<in>set (audioSources ?w'). u < nextUrl ?w'"
  proof safe
    fix key u assume "(key, u) \<in> set (audioSources ?w')"
    from step_sources [OF this] old show "u < nextUrl ?w'" by auto
  qed
  from old new show ?thesis by (simp add: minted_def list_all_iff)
qed

text \<open>Every state that the page reaches from its initial state has only minted handles.\<close>

lemma minted_run: "minted c \<Longrightarrow> minted (run evs c)"
proof (induction evs arbitrary: c)
  case Nil
  then show ?case by simp
next
  case (Cons ev evs)
  obtain k a where ev: "ev = (k, a)" by (cases ev)
  obtain w olds where c: "c = (w, olds)" by (cases c)
  from Cons.prems have "minted (step (render k w olds) a w, w # olds)"
    unfolding c by (rule minted_step)
  then show ?case unfolding ev c by (simp add: Cons.IH)
qed

lemma minted_reachable: "minted (run evs (AudioFilesPage_init, []))"
  by (rule minted_run) (simp add: minted_def AudioFilesPage_init_def)

lemma kept_step:
  assumes "kept d (w, olds)"
  shows "kept d (step (render k w olds) a w, w # olds)"
proof -
  let ?r = "render k w olds"
  let ?w' = "step ?r a w"
  from assms have d: "d < nextUrl w" and l: "d \<in> liveUrls (effects w)"
    and n: "\<forall>r\<in>set (w # olds). d \<notin> snd ` set (audioSources r)"
    by (simp_all add: kept_def list_all_iff)
  have "d < nextUrl ?w'" using d step_nextUrl [of w ?r a] by simp
  moreover
  obtain new where e: "effects ?w' = new @ effects w"
    and rv: "\<forall>u. RevokeObjectURL u \<in> set new \<longrightarrow> u \<in> snd ` set (audioSources ?r)"
    using step_effects by blast
  have "RevokeObjectURL d \<notin> set new" using rv n render_in [of k w olds] by blast
  then have "d \<in> liveUrls (effects ?w')" using l e by (simp add: live_append)
  moreover
  have "d \<notin> snd ` set (audioSources ?w')"
  proof
    assume "d \<in> snd ` set (audioSources ?w')"
    then obtain key where "(key, d) \<in> set (audioSources ?w')" by auto
    from step_sources [OF this] n d show False by force
  qed
  ultimately show ?thesis using n by (simp add: kept_def list_all_iff)
qed

lemma kept_run: "kept d c \<Longrightarrow> kept d (run evs c)"
proof (induction evs arbitrary: c)
  case Nil
  then show ?case by simp
next
  case (Cons ev evs)
  obtain k a where ev: "ev = (k, a)" by (cases ev)
  obtain w olds where c: "c = (w, olds)" by (cases c)
  from Cons.prems have "kept d (step (render k w olds) a w, w # olds)"
    unfolding c by (rule kept_step)
  then show ?case unfolding ev c by (simp add: Cons.IH)
qed

lemma handleDownload_success:
  assumes "ok status" and "\<forall>name msg. b \<noteq> Unreadable name msg"
  shows "handleDownload_resume ttl (Resolves status txt b) w =
           w\<lparr>nextUrl := Suc (nextUrl w),
             effects := AnchorClick (nextUrl w) ttl # CreateObjectURL (nextUrl w) # effects w\<rparr>"
  using assms
  by (cases b) (auto simp: handleDownload_resume_def createObjectURL_def emit_def)

text \<open>
  C10. A successful \<open>handleDownload\<close> mints one object URL and clicks the anchor on it, and
  that is all it does: \<open>audioSources\<close>, \<open>pendingFetches\<close>, \<open>audioFiles\<close> and \<open>expandedTrack\<close> are
  what they were, after the request is sent and after the reply is handled. Whatever
  the page does afterwards, in whatever render, the object URL stays live, so it is
  never revoked, and it is a handle in no state of the page, so it is never stored in
  the handle map. The handles of the page are taken to be minted object URLs, as they
  are in every state that the page reaches.
\<close>

theorem handleDownload_url_not_retained:
  assumes "ok status" and "\<forall>name msg. b \<noteq> Unreadable name msg" and "minted (w, olds)"
  shows "effects (handleDownload_resume ttl (Resolves status txt b) w) =
           [AnchorClick (nextUrl w) ttl, CreateObjectURL (nextUrl w)] @ effects w
       \<and> audioSources (handleDownload_resume ttl (Resolves status txt b) w) = audioSources w
       \<and> pendingFetches (handleDownload_resume ttl (Resolves status txt b) w) = pendingFetches w
       \<and> audioFiles (handleDownload_resume ttl (Resolves status txt b) w) = audioFiles w
       \<and> expandedTrack (handleDownload_resume ttl (Resolves status txt b) w) = expandedTrack w
       \<and> effects (handleDownload_begin f v) = Fetch ''GET'' (''/download/'' @ actualFileName f) # effects v
       \<and> audioSources (handleDownload_begin f v) = audioSources v
       \<and> pendingFetches (handleDownload_begin f v) = pendingFetches v
       \<and> audioFiles (handleDownload_begin f v) = audioFiles v
       \<and> expandedTrack (handleDownload_begin f v) = expandedTrack v
       \<and> nextUrl w \<in> liveUrls (effects (fst
           (run evs (handleDownload_resume ttl (Resolves status txt b) w, w # olds))))
       \<and> list_all (\<lambda>r. nextUrl w \<notin> snd ` set (audioSources r))
           (fst (run evs (handleDownload_resume ttl (Resolves status txt b) w, w # olds)) #
            snd (run evs (handleDownload_resume ttl (Resolves status txt b) w, w # olds)))"
proof -
  let ?w' = "handleDownload_resume ttl (Resolves status txt b) w"
  have eq: "?w' = w\<lparr>nextUrl := Suc (nextUrl w),
                     effects := AnchorClick (nextUrl w) ttl # CreateObjectURL (nextUrl w) # effects w\<rparr>"
    using assms(1,2) by (rule handleDownload_success)
  have "\<forall>r\<in>set (w # olds). \<forall>(key, u)\<in>set (audioSources r). u < nextUrl w"
    using assms(3) by (simp add: minted_def list_all_iff)
  then have "\<forall>r\<in>set (w # olds). nextUrl w \<notin> snd ` set (audioSources r)"
    by fastforce
  then have "kept (nextUrl w) (?w', w # olds)"
    by (simp add: kept_def list_all_iff eq)
  then have "kept (nextUrl w) (run evs (?w', w # olds))"
    by (rule kept_run)
  then show ?thesis
    by (simp add: kept_def eq handleDownload_begin_def emit_def)
qed

text \<open>
  C10, in the last scenario: the handle map holds the object URL 0 and the download mints
  the object URL 1. Afterwards the cleanup revokes the handles of the page and the
  player reports an error for the file: 0 is revoked, 1 is live.
\<close>

theorem handleDownload_url_not_retained_witness:
  "ok 200 \<and> minted dl_c
 \<and> audioSources (fst dl_c) = [(''a.mp3'', 0)] \<and> nextUrl (fst dl_c) = 1
 \<and> effects (handleDownload_resume ''a'' audio (fst dl_c)) =
     [AnchorClick 1 ''a'', CreateObjectURL 1] @ effects (fst dl_c)
 \<and> audioSources (handleDownload_resume ''a'' audio (fst dl_c)) = [(''a.mp3'', 0)]
 \<and> liveUrls (effects (handleDownload_resume ''a'' audio (fst dl_c))) = {0, 1}
 \<and> 1 \<in> liveUrls (effects (fst
     (run [(0, Cleanup), (1, PlayError True ''a.mp3'')]
        (handleDownload_resume ''a'' audio (fst dl_c), fst dl_c # snd dl_c))))
 \<and> 0 \<notin> liveUrls (effects (fst
     (run [(0, Cleanup), (1, PlayError True ''a.mp3'')]
        (handleDownload_resume ''a'' audio (fst dl_c), fst dl_c # snd dl_c))))"
proof -
  have k: "ok 200" by (simp add: ok_def)
  have b: "\<forall>name msg. NotJson ''Unexpected token'' \<noteq> (Unreadable name msg :: unit body)" by simp
  have m: "minted (fst dl_c, snd dl_c)"
    by (simp add: minted_def dl_c_def audio_def render_def fetchAudioSource_begin_def
        fetchAudioSource_resume_def fetchAudioSource_finally_def createObjectURL_def
        handleDownload_begin_def AudioFilesPage_init_def emit_def actualFileName_def ok_def)
  have s: "audioSources (fst dl_c) = [(''a.mp3'', 0)]" "nextUrl (fst dl_c) = 1"
    "effects (fst dl_c) =
       [Fetch ''GET'' ''/download/a.mp3'', CreateObjectURL 0, Fetch ''GET'' ''/stream/a.mp3'']"
    by (simp_all add: dl_c_def audio_def render_def fetchAudioSource_begin_def
        fetchAudioSource_resume_def fetchAudioSource_finally_def createObjectURL_def
        handleDownload_begin_def AudioFilesPage_init_def emit_def actualFileName_def ok_def)
  have z: "0 \<notin> liveUrls (effects (fst
     (run [(0, Cleanup), (1, PlayError True ''a.mp3'')]
        (handleDownload_resume ''a'' audio (fst dl_c), fst dl_c # snd dl_c))))"
    by (simp add: dl_c_def audio_def render_def fetchAudioSource_begin_def
        fetchAudioSource_resume_def fetchAudioSource_finally_def createObjectURL_def
        handleDownload_begin_def AudioFilesPage_init_def emit_def actualFileName_def ok_def
        handleDownload_resume_def handlePlayError_begin_def audioSources_cleanup_def)
  from handleDownload_url_not_retained
         [OF k b m, of "''a''" "''OK''" "''a.mp3''" "fst dl_c"
            "[(0, Cleanup), (1, PlayError True ''a.mp3'')]"] k m s z
  show ?thesis by (simp add: audio_def insert_commute)
qed


section \<open>fetchAudioFiles\<close>

text \<open>
  C9. When the list request fails, the message of the error is recorded and the list is
  replaced by the five hard-coded samples: when the request is rejected, when the reply
  is not ok (then the router is also sent to the login route), and when an ok reply has
  a body that cannot be read or parsed, is \<open>null\<close>, or has no \<open>files\<close> array.
\<close>

theorem fetchAudioFiles_failure_fallback:
  assumes "\<not> ok bad" and "ok good"
  shows "fetchAudioFiles_resume (Rejects name msg) w =
           w\<lparr>audioFiles := fallbackAudioFiles, loading := False, error := Some msg\<rparr>
       \<and> fetchAudioFiles_resume (Resolves bad txt b) w =
           (emit (RouterPush ''/login'') w)
             \<lparr>audioFiles := fallbackAudioFiles, loading := False,
              error := Some (''Error fetching audio files: '' @ txt)\<rparr>
       \<and> fetchAudioFiles_resume (Resolves good txt (Json DataNoFiles)) w =
           w\<lparr>audioFiles := fallbackAudioFiles, loading := False,
             error := Some ''Server response is not in the expected format''\<rparr>
       \<and> fetchAudioFiles_resume (Resolves good txt (Json (DataNull msg))) w =
           w\<lparr>audioFiles := fallbackAudioFiles, loading := False, error := Some msg\<rparr>
       \<and> fetchAudioFiles_resume (Resolves good txt (NotJson msg)) w =
           w\<lparr>audioFiles := fallbackAudioFiles, loading := False, error := Some msg\<rparr>
       \<and> fetchAudioFiles_resume (Resolves good txt (Unreadable name msg)) w =
           w\<lparr>audioFiles := fallbackAudioFiles, loading := False, error := Some msg\<rparr>
       \<and> map title fallbackAudioFiles =
           [''Trombone Duet'', ''Piano Sonata'', ''Drum Solo'', ''Ambient Sounds'', ''Electronic Beat'']"
  using assms
  by (simp add: fetchAudioFiles_resume_def fetchAudioFiles_catch_def emit_def
      fallbackAudioFiles_def sample_def)

text \<open>
  C9, for a list that had been loaded: a reply 500 replaces it by the samples, records
  the message and sends the router to the login route; a reply 200 without a \<open>files\<close>
  array replaces it and records the message.
\<close>

theorem fetchAudioFiles_failure_fallback_witness:
  "\<not> ok 500 \<and> ok 200
 \<and> map fileName (audioFiles del_w0) = [''a.mp3'']
 \<and> map title (audioFiles (fetchAudioFiles_resume (Resolves 500 ''Internal Server Error'' (NotJson ''x'')) del_w0)) =
     [''Trombone Duet'', ''Piano Sonata'', ''Drum Solo'', ''Ambient Sounds'', ''Electronic Beat'']
 \<and> error (fetchAudioFiles_resume (Resolves 500 ''Internal Server Error'' (NotJson ''x'')) del_w0) =
     Some ''Error fetching audio files: Internal Server Error''
 \<and> effects (fetchAudioFiles_resume (Resolves 500 ''Internal Server Error'' (NotJson ''x'')) del_w0) =
     [RouterPush ''/login'', Fetch ''GET'' ''/list-files'']
 \<and> audioFiles (fetchAudioFiles_resume (Resolves 200 ''Internal Server Error'' (Json DataNoFiles)) del_w0) =
     fallbackAudioFiles
 \<and> error (fetchAudioFiles_resume (Resolves 200 ''Internal Server Error'' (Json DataNoFiles)) del_w0) =
     Some ''Server response is not in the expected format''"
proof -
  have k: "\<not> ok 500" "ok 200" by (simp_all add: ok_def)
  have l: "map fileName (audioFiles del_w0) = [''a.mp3'']"
    by (simp add: del_w0_def fetchAudioFiles_begin_def fetchAudioFiles_resume_def formatFile_def
        ok_def)
  have e: "effects del_w0 = [Fetch ''GET'' ''/list-files'']"
    by (simp add: del_w0_def fetchAudioFiles_begin_def fetchAudioFiles_resume_def
        AudioFilesPage_init_def emit_def ok_def)
  from fetchAudioFiles_failure_fallback
         [OF k, of "''x''" "''x''" del_w0 "''Internal Server Error''" "NotJson ''x''"] k l e
  show ?thesis by (simp add: emit_def)
qed


section \<open>The session\<close>

text \<open>
  C3, as claimed: after a login the \<open>login\<close> event is observed exactly once, and every
  \<open>checkAuthStatus\<close> within 60 seconds of a true verified result returns true without a
  network call. In the third scenario \<open>handleLogin\<close> stores the session, dispatches \<open>login\<close>
  and sends the router to the home page, whose mount finds the session and dispatches
  \<open>login\<close> again. The validation started at time 100000 returns true at time 130000; a
  \<open>checkAuthStatus\<close> at time 170000, 40 seconds after that result, returns true but sends
  a request, since the window is counted from the start of the validation. And when the
  user has logged out while the validation was in flight, the validation still returns
  true, and a \<open>checkAuthStatus\<close> 10 seconds later returns false.
\<close>

theorem login_event_twice_and_window_from_start:
  "fst (handleLogin_begin ''alice'' ''secret'' login_init) = Awaiting
 \<and> storage logged_in ''token'' = Some ''tok''
 \<and> effects logged_in = [RouterPush ''/'', DispatchEvent ''login'', Fetch ''POST'' ''/login'']
 \<and> fst (HomePage_checkAuth logged_in) = True
 \<and> filter (\<lambda>e. e = DispatchEvent ''login'') (effects at_home) =
     [DispatchEvent ''login'', DispatchEvent ''login'']
 \<and> fst (validateTokenAsync_resume 130000 alice (validateTokenAsync_begin 100000 logged_in)) = True
 \<and> (170000 :: int) - 130000 < 60000
 \<and> fst (checkAuthStatus_begin 170000 verified) = Returned True
 \<and> effects (snd (checkAuthStatus_begin 170000 verified)) =
     Fetch ''GET'' ''/users/me'' # effects verified
 \<and> fst (validateTokenAsync_resume 130000 alice
          (logout (validateTokenAsync_begin 100000 logged_in))) = True
 \<and> (140000 :: int) - 130000 < 60000
 \<and> fst (checkAuthStatus_begin 140000 raced) = Returned False"
  by (simp add: login_ok_def logged_in_def at_home_def alice_def verified_def raced_def
      handleLogin_resume_def handleLogin_begin_def login_init_def HomePage_checkAuth_def
      js_string_def isAuthenticated_def getToken_def setItem_def removeItem_def emit_def ok_def
      logout_def validateTokenAsync_begin_def validateTokenAsync_resume_def
      validateTokenAsync_ok_def checkAuthStatus_begin_def AUTH_CACHE_DURATION_def)

text \<open>
  C3, amended. A login that the server accepts stores token, authenticated flag and
  username, and \<open>handleLogin\<close> itself dispatches \<open>login\<close> once, before it sends the router to
  the home page. A validation records the time of its start in \<open>lastAuthCheck\<close>; when the
  server accepts the token it returns true and stores the authenticated flag, and it
  touches neither the token nor \<open>lastAuthCheck\<close>, whatever the state in which the reply
  arrives. Every \<open>checkAuthStatus\<close> made while a token and the authenticated flag are in the
  store, less than 60000 ms after \<open>lastAuthCheck\<close>, returns true and leaves the state, the
  log of requests included, as it is. So does, in particular, every \<open>checkAuthStatus\<close> less
  than 60000 ms after the start of a validation that found a token in the store and
  returned true, when nothing else has changed the session since.
\<close>

theorem login_session_and_cache_window:
  assumes "ok status" and "ok st"
    and "getToken a \<noteq> None" and "storage a ''isAuthenticated'' = Some ''true''"
    and "now - lastAuthCheck a < 60000"
    and "getToken c \<noteq> None" and "now - t0 < 60000"
  shows "storage (handleLogin_resume uname (Resolves status txt (Json data)) w) ''token'' =
           Some (js_string (access_token data))
       \<and> storage (handleLogin_resume uname (Resolves status txt (Json data)) w) ''isAuthenticated'' =
           Some ''true''
       \<and> storage (handleLogin_resume uname (Resolves status txt (Json data)) w) ''username'' = Some uname
       \<and> effects (handleLogin_resume uname (Resolves status txt (Json data)) w) =
           [RouterPush ''/'', DispatchEvent ''login''] @ effects w
       \<and> lastAuthCheck (validateTokenAsync_begin t0 b) = t0
       \<and> storage (validateTokenAsync_begin t0 b) = storage b
       \<and> fst (validateTokenAsync_resume t1 (Resolves st tx (Json u)) b)
       \<and> storage (snd (validateTokenAsync_resume t1 (Resolves st tx (Json u)) b)) ''isAuthenticated'' =
           Some ''true''
       \<and> storage (snd (validateTokenAsync_resume t1 (Resolves st tx (Json u)) b)) ''token'' =
           storage b ''token''
       \<and> lastAuthCheck (snd (validateTokenAsync_resume t1 (Resolves st tx (Json u)) b)) =
           lastAuthCheck b
       \<and> checkAuthStatus_begin now a = (Returned True, a)
       \<and> checkAuthStatus_begin now
           (snd (validateTokenAsync_resume t1 (Resolves st tx (Json u)) (validateTokenAsync_begin t0 c))) =
         (Returned True,
          snd (validateTokenAsync_resume t1 (Resolves st tx (Json u)) (validateTokenAsync_begin t0 c)))"
  using assms
  by (auto simp: handleLogin_resume_def setItem_def emit_def Let_def
      validateTokenAsync_resume_def validateTokenAsync_begin_def validateTokenAsync_ok_def
      checkAuthStatus_begin_def getToken_def AUTH_CACHE_DURATION_def
      split: option.splits if_splits)

text \<open>
  C3, amended, in the third scenario: the login of alice; the validation started at time
  100000 and answered at time 130000; \<open>checkAuthStatus\<close> at time 159999, which sends nothing.
\<close>

theorem login_session_and_cache_window_witness:
  "ok 200 \<and> getToken logged_in \<noteq> None \<and> getToken verified \<noteq> None
 \<and> storage verified ''isAuthenticated'' = Some ''true''
 \<and> (159999 :: int) - lastAuthCheck verified < 60000
 \<and> storage logged_in ''token'' = Some ''tok''
 \<and> storage logged_in ''isAuthenticated'' = Some ''true''
 \<and> storage logged_in ''username'' = Some ''alice''
 \<and> lastAuthCheck verified = 100000
 \<and> fst (validateTokenAsync_resume 130000 alice (validateTokenAsync_begin 100000 logged_in))
 \<and> checkAuthStatus_begin 159999 verified = (Returned True, verified)"
proof -
  let ?w = "snd (handleLogin_begin ''alice'' ''secret'' login_init)"
  have k: "ok 200" by (simp add: ok_def)
  have g: "getToken logged_in \<noteq> None"
    by (simp add: login_ok_def logged_in_def handleLogin_resume_def handleLogin_begin_def
        login_init_def js_string_def getToken_def setItem_def emit_def ok_def)
  have v: "getToken verified \<noteq> None" "storage verified ''isAuthenticated'' = Some ''true''"
    "lastAuthCheck verified = 100000"
    by (simp_all add: verified_def alice_def login_ok_def logged_in_def handleLogin_resume_def
        handleLogin_begin_def login_init_def js_string_def getToken_def setItem_def emit_def
        ok_def validateTokenAsync_begin_def validateTokenAsync_resume_def
        validateTokenAsync_ok_def)
  have t: "(159999 :: int) - lastAuthCheck verified < 60000" "(159999 :: int) - 100000 < 60000"
    by (simp_all add: v)
  from login_session_and_cache_window
         [OF k k v(1) v(2) t(1) g t(2),
          of "''alice''" "''OK''" "\<lparr>access_token = Some ''tok'', detail = None\<rparr>" ?w
             "validateTokenAsync_begin 100000 logged_in" 130000 "''OK''"
             "\<lparr>username = ''alice'', details = ''user''\<rparr>"] k g v t
  show ?thesis by (simp add: logged_in_def login_ok_def js_string_def verified_def alice_def)
qed

text \<open>
  What \<open>getCurrentUser\<close> does with the reply of the current-user endpoint when there is
  one: an ok reply with a record refreshes the cache and returns the record; a reply that
  is not ok clears the cache and returns null, and a 401 logs out on top of that.
\<close>

lemma getCurrentUser_resume_reply:
  "(ok status \<longrightarrow>
      getCurrentUser_resume now (Resolves status txt (Json userData)) a =
        (Some userData, a\<lparr>userCache := Some userData, lastUserFetch := now\<rparr>))
 \<and> (\<not> ok status \<and> status \<noteq> 401 \<longrightarrow>
      getCurrentUser_resume now (Resolves status txt b) a = (None, a\<lparr>userCache := None\<rparr>))
 \<and> getCurrentUser_resume now (Resolves 401 txt b) a = (None, logout (a\<lparr>userCache := None\<rparr>))"
  by (simp add: getCurrentUser_resume_def ok_def)

text \<open>
  When the request is rejected, or the body of an ok reply cannot be read or parsed, the
  \<open>catch\<close> block returns null and changes nothing.
\<close>

lemma getCurrentUser_resume_error:
  "getCurrentUser_resume now (Rejects name msg) a = (None, a)
 \<and> (ok status \<longrightarrow>
      getCurrentUser_resume now (Resolves status txt (NotJson msg)) a = (None, a)
    \<and> getCurrentUser_resume now (Resolves status txt (Unreadable name msg)) a = (None, a))"
  by (simp add: getCurrentUser_resume_def)

lemma logout_clears:
  "storage (logout a) ''token'' = None \<and> storage (logout a) ''isAuthenticated'' = None
 \<and> storage (logout a) ''username'' = None \<and> storage (logout a) ''_authDispatchedEvent'' = None
 \<and> userCache (logout a) = None \<and> effects (logout a) = DispatchEvent ''logout'' # effects a"
  by (simp add: logout_def removeItem_def emit_def)

text \<open>
  C5. The claim is that a network error at the current-user endpoint clears the user
  cache. A forced refresh in a session verified at time 1000, whose user is cached,
  reaches the endpoint at time 2000; the request is rejected; the call returns null and
  the cached user is still there.
\<close>

theorem getCurrentUser_network_error_keeps_cache:
  "fst (getCurrentUser_begin True 2000 cached) = AwaitingUser
 \<and> effects (snd (getCurrentUser_begin True 2000 cached)) = [Fetch ''GET'' ''/users/me'']
 \<and> fst (getCurrentUser_resume 2000 (Rejects ''TypeError'' ''Failed to fetch'')
          (snd (getCurrentUser_begin True 2000 cached))) = None
 \<and> userCache (snd (getCurrentUser_resume 2000 (Rejects ''TypeError'' ''Failed to fetch'')
                     (snd (getCurrentUser_begin True 2000 cached)))) = Some bob"
  by (simp add: cached_def getCurrentUser_begin_def getCurrentUser_authed_def
      getCurrentUser_resume_def checkAuthStatus_begin_def getToken_def AUTH_CACHE_DURATION_def
      emit_def)

text \<open>
  Without a token \<open>checkAuthStatus\<close> answers false, sends nothing, and removes the keys
  \<open>isAuthenticated\<close> and \<open>username\<close> from the store; every other key is left as it is.
\<close>

lemma checkAuthStatus_no_token:
  assumes "getToken a = None"
  shows "checkAuthStatus_begin now a =
           (Returned False,
            a\<lparr>storage := (storage a)(''isAuthenticated'' := None, ''username'' := None)\<rparr>)"
  using assms by (simp add: checkAuthStatus_begin_def removeItem_def)

text \<open>
  C6. The claim is that \<open>checkAuthStatus\<close> without a token clears the authenticated flag,
  the username and the event-dispatched flag. In a store without token that holds the
  three, the call returns false without a request and removes \<open>isAuthenticated\<close> and
  \<open>username\<close>; \<open>_authDispatchedEvent\<close> is still \<open>true\<close>.
\<close>

theorem checkAuthStatus_no_token_keeps_dispatch_flag:
  "getToken stale = None
 \<and> fst (checkAuthStatus_begin 1000 stale) = Returned False
 \<and> effects (snd (checkAuthStatus_begin 1000 stale)) = []
 \<and> storage (snd (checkAuthStatus_begin 1000 stale)) ''isAuthenticated'' = None
 \<and> storage (snd (checkAuthStatus_begin 1000 stale)) ''username'' = None
 \<and> storage (snd (checkAuthStatus_begin 1000 stale)) ''_authDispatchedEvent'' = Some ''true''"
  by (simp add: stale_def checkAuthStatus_begin_def getToken_def removeItem_def)


section \<open>The upload\<close>

text \<open>A reply outside 2xx always ends in a message and in no exception.\<close>

lemma handleSubmit_load_failure:
  "\<not> (200 \<le> status \<and> status < 300) \<Longrightarrow>
   fst (handleSubmit_load status parsed w) = None
 \<and> error_u (snd (handleSubmit_load status parsed w)) \<noteq> []
 \<and> \<not> isUploading (snd (handleSubmit_load status parsed w))
 \<and> (\<forall>msg. parsed = SyntaxError msg \<longrightarrow>
        error_u (snd (handleSubmit_load status parsed w)) = ''Upload failed'')"
  by (auto simp: handleSubmit_load_def js_or_def split: json_parse.splits upload_json.splits option.splits)

text \<open>
  C7. The claim is that a completed upload whose body is not JSON ends in a message and
  in no uncaught exception, whatever the status. With status 200 and a body that is
  not JSON, the SyntaxError of \<open>JSON.parse\<close> escapes the listener: no message and no error
  is set, and the page still shows the upload as under way.
\<close>

theorem handleSubmit_load_2xx_not_json_throws:
  "fst (handleSubmit_load 200 (SyntaxError ''Unexpected token'')
          (uploading ''a.mp3'' ''d'' ''Jazz'' (Some 3))) =
     Some (''SyntaxError'', ''Unexpected token'')
 \<and> message (snd (handleSubmit_load 200 (SyntaxError ''Unexpected token'')
                   (uploading ''a.mp3'' ''d'' ''Jazz'' (Some 3)))) = []
 \<and> error_u (snd (handleSubmit_load 200 (SyntaxError ''Unexpected token'')
                   (uploading ''a.mp3'' ''d'' ''Jazz'' (Some 3)))) = []
 \<and> isUploading (snd (handleSubmit_load 200 (SyntaxError ''Unexpected token'')
                       (uploading ''a.mp3'' ''d'' ''Jazz'' (Some 3))))"
  by (simp add: handleSubmit_load_def uploading_def)

end
